theory Spec2Isabelle
  imports Complex_Main "HOL-Library.Word" "HOL-Library.Sublist"
begin

section \<open>JavaScript primitives used by the setup modals\<close>

text \<open>
  \<open>Array.prototype.indexOf\<close>: the position of the first element strictly equal to the
  argument, or \<open>-1\<close> when there is none. The scan is written with its running index.
\<close>

fun indexOf_from :: "'a list \<Rightarrow> 'a \<Rightarrow> int \<Rightarrow> int" where
  "indexOf_from [] x i = - 1"
| "indexOf_from (y # ys) x i = (if y = x then i else indexOf_from ys x (i + 1))"

definition indexOf :: "'a list \<Rightarrow> 'a \<Rightarrow> int" where
  "indexOf xs x = indexOf_from xs x 0"

text \<open>
  \<open>Math.round\<close>: the nearest integer, a tie going towards plus infinity, that is
  \<open>floor (x + 1/2)\<close>. Numbers are modelled as exact rationals. The quotients the modals
  round are \<open>100 * i / 9\<close> with \<open>-1 \<le> i \<le> 9\<close>; their distance to the nearest
  half-integer is at least \<open>1/18\<close>, far above the rounding error of the two double
  operations, so the exact value and the double round to the same integer. The older
  Ubuntu modal computes \<open>i / 8 * 100\<close>, which is exact in doubles.
\<close>

definition Math_round :: "rat \<Rightarrow> int" where
  "Math_round x = \<lfloor>x + 1 / 2\<rfloor>"

definition Math_min :: "rat \<Rightarrow> rat \<Rightarrow> rat" where
  "Math_min a b = (if a \<le> b then a else b)"

section \<open>Progress percentage of the three modal variants\<close>

text \<open>
  A stage is the string carried by an \<open>installation-stage\<close> event: the TypeScript type
  \<open>InstallationStage\<close> is a union of string literals and the listeners cast the payload
  without checking it, so every string is a possible argument.
\<close>

type_synonym InstallationStage = string

text \<open>WindowsSetupModal.vue (src/unnamed/part_000), \<open>calculateProgress\<close>.\<close>

definition win_stages :: "InstallationStage list" where
  "win_stages =
     [''NotStarted'',
      ''SystemCheckInProgress'',
      ''SystemCheckComplete'',
      ''CheckingDocker'',
      ''DockerNotInstalled'',
      ''DockerInstalling'',
      ''DockerInstalled'',
      ''StartingMySQLContainer'',
      ''MySQLContainerStarted'',
      ''SetupComplete'']"

definition win_calculateProgress :: "InstallationStage \<Rightarrow> int" where
  "win_calculateProgress stage =
     (let index = indexOf win_stages stage
      in Math_round ((of_int index / of_int (int (length win_stages) - 1)) * 100))"

text \<open>src/components/UbuntuSetupModal.vue, \<open>calculateProgress\<close>.\<close>

definition stages :: "InstallationStage list" where
  "stages =
     [''NotStarted'', ''AwaitingSudoPassword'', ''CheckingDocker'',
      ''DockerNotInstalled'', ''DockerInstalling'', ''DockerInstalled'',
      ''PreparingMySQLContainer'', ''StartingMySQLContainer'',
      ''MySQLContainerStarted'', ''SetupComplete'']"

definition calculateProgress :: "InstallationStage \<Rightarrow> int" where
  "calculateProgress stage =
     (let index = indexOf stages stage
      in Math_round ((of_int index / of_int (int (length stages) - 1)) * 100))"

text \<open>
  The earlier UbuntuSetupModal.vue (src/unnamed/part_001), \<open>calculateProgress\<close>: nine
  stages, a guard on the index and no rounding.
\<close>

definition old_stages :: "InstallationStage list" where
  "old_stages =
     [''NotStarted'', ''CheckingDocker'', ''DockerNotInstalled'',
      ''DockerInstalling'', ''DockerInstalled'',
      ''PreparingMySQLContainer'', ''StartingMySQLContainer'',
      ''MySQLContainerStarted'', ''SetupComplete'']"

definition old_calculateProgress :: "InstallationStage \<Rightarrow> rat" where
  "old_calculateProgress stage =
     (let index = indexOf old_stages stage
      in if index > 0
         then Math_min 100 ((of_int index / of_int (int (length old_stages) - 1)) * 100)
         else 0)"

section \<open>Strings, errors and backend invocations\<close>

text \<open>
  A JavaScript string is a sequence of UTF-16 code units. The password is kept in that
  form because \<open>String.prototype.trim\<close> is defined on code units; stage names, request
  ids, log lines and messages are compared with ASCII literals only and are \<open>string\<close>s.
\<close>

type_synonym jsstring = "16 word list"

text \<open>
  The code units \<open>trim\<close> removes: ECMAScript WhiteSpace (TAB, VT, FF, ZWNBSP and the
  Unicode space separators) and LineTerminator (LF, CR, LS, PS).
\<close>

definition whitespace_units :: "16 word list" where
  "whitespace_units =
     [0x0009, 0x000A, 0x000B, 0x000C, 0x000D, 0x0020, 0x00A0, 0x1680,
      0x2000, 0x2001, 0x2002, 0x2003, 0x2004, 0x2005, 0x2006, 0x2007,
      0x2008, 0x2009, 0x200A, 0x2028, 0x2029, 0x202F, 0x205F, 0x3000, 0xFEFF]"

definition isWhiteSpace :: "16 word \<Rightarrow> bool" where
  "isWhiteSpace c = (c \<in> set whitespace_units)"

definition trim :: "jsstring \<Rightarrow> jsstring" where
  "trim s = dropWhile isWhiteSpace (rev (dropWhile isWhiteSpace (rev s)))"

text \<open>
  A rejected \<open>invoke\<close> or \<open>listen\<close> promise carries an error value; the handlers only
  log it or splice its text into a message.
\<close>

datatype js_error = JsError (error_text: string)

text \<open>
  The one backend command that receives the password, with the arguments the handler
  passes to it.
\<close>

datatype invocation =
  Invoke (command: string) (arg_requestId: string) (arg_password: jsstring)

section \<open>The Ubuntu setup modal (src/components/UbuntuSetupModal.vue)\<close>

text \<open>
  The component's props and refs. \<open>emitted\<close> collects the payloads of
  \<open>emit('update:modelValue', ...)\<close> in order. The scroll position of the two log
  containers is a DOM effect and is left out.
\<close>

record UbuntuSetupModal =
  props_modelValue :: bool
  props_currentSudoPasswordRequestId :: string
  currentStage :: InstallationStage
  setupProgress :: int
  errorMessage :: string
  password :: jsstring
  mysqlContainerLogs :: "string list"
  dockerInstallLogs :: "string list"
  currentRequestId :: string
  emitted :: "bool list"

definition UbuntuSetupModal_setup :: "bool \<Rightarrow> string \<Rightarrow> UbuntuSetupModal" where
  "UbuntuSetupModal_setup mv rid =
     \<lparr>props_modelValue = mv, props_currentSudoPasswordRequestId = rid,
      currentStage = ''NotStarted'', setupProgress = 0, errorMessage = [],
      password = [], mysqlContainerLogs = [], dockerInstallLogs = [],
      currentRequestId = [], emitted = []\<rparr>"

text \<open>
  \<open>watch(currentStage, ...)\<close>: the callback, and its scheduling. Vue runs the callback
  once after the synchronous code that assigned the ref, and only when the value differs
  from the one seen before.
\<close>

definition watch_currentStage :: "InstallationStage \<Rightarrow> UbuntuSetupModal \<Rightarrow> UbuntuSetupModal" where
  "watch_currentStage newStage s =
     (let s1 = s\<lparr>setupProgress := calculateProgress newStage\<rparr>
      in if newStage = ''DockerInstallFailed''
         then s1\<lparr>errorMessage := ''Docker installation failed. Check logs below.''\<rparr>
         else s1)"

definition flush_watch :: "InstallationStage \<Rightarrow> UbuntuSetupModal \<Rightarrow> UbuntuSetupModal" where
  "flush_watch oldStage s =
     (if currentStage s = oldStage then s else watch_currentStage (currentStage s) s)"

text \<open>
  \<open>onMounted\<close>: the stage leaves \<open>NotStarted\<close>, then four listeners are registered one
  after the other. \<open>listened\<close> is the number of \<open>listen\<close> calls that resolve before one
  rejects (four or more: all of them); a rejection reaches the \<open>catch\<close> branch. The
  callbacks it registers are the four \<open>on_...\<close> functions below.
\<close>

definition onMounted :: "nat \<Rightarrow> UbuntuSetupModal \<Rightarrow> UbuntuSetupModal" where
  "onMounted listened s =
     (let s1 = flush_watch (currentStage s) (s\<lparr>currentStage := ''AwaitingInstallationStart''\<rparr>)
      in if listened < 4 then s1\<lparr>errorMessage := ''Event listening failed''\<rparr> else s1)"

text \<open>
  The \<open>sudo-password-request\<close> listener. The payload's \<open>request_id\<close> is \<open>None\<close> when the
  payload or the field is missing; an empty id is falsy as well.
\<close>

definition on_sudo_password_request :: "string option \<Rightarrow> UbuntuSetupModal \<Rightarrow> UbuntuSetupModal" where
  "on_sudo_password_request request_id s =
     (case request_id of
        None \<Rightarrow> s
      | Some rid \<Rightarrow>
          if rid \<noteq> []
          then flush_watch (currentStage s)
                 (s\<lparr>currentRequestId := rid, currentStage := ''AwaitingSudoPassword''\<rparr>)
          else s)"

text \<open>The \<open>installation-stage\<close> listener.\<close>

definition on_installation_stage :: "InstallationStage \<Rightarrow> UbuntuSetupModal \<Rightarrow> UbuntuSetupModal" where
  "on_installation_stage stage s =
     (let s1 = s\<lparr>currentStage := stage, setupProgress := calculateProgress stage\<rparr>;
          s2 = (if stage = ''DockerInstallFailed'' \<or> stage = ''MySQLSetupFailed''
                then s1\<lparr>errorMessage := ''Setup failed at stage: '' @ stage\<rparr>
                else s1);
          s3 = (if stage = ''SetupComplete''
                then s2\<lparr>emitted := emitted s2 @ [False]\<rparr>
                else s2)
      in flush_watch (currentStage s) s3)"

text \<open>The \<open>mysql-container-log\<close> and \<open>docker-install-log\<close> listeners (\<open>push\<close>).\<close>

definition on_mysql_container_log :: "string \<Rightarrow> UbuntuSetupModal \<Rightarrow> UbuntuSetupModal" where
  "on_mysql_container_log logMessage s =
     s\<lparr>mysqlContainerLogs := mysqlContainerLogs s @ [logMessage]\<rparr>"

definition on_docker_install_log :: "string \<Rightarrow> UbuntuSetupModal \<Rightarrow> UbuntuSetupModal" where
  "on_docker_install_log logMessage s =
     s\<lparr>dockerInstallLogs := dockerInstallLogs s @ [logMessage]\<rparr>"

text \<open>
  \<open>startInstallation\<close>; the argument is the outcome of \<open>invoke('start_ubuntu_setup')\<close>.
  The function is the run in which no other event is handled while the promise is
  pending.
\<close>

definition startInstallation :: "js_error + unit \<Rightarrow> UbuntuSetupModal \<Rightarrow> UbuntuSetupModal" where
  "startInstallation result s =
     (let s1 = flush_watch (currentStage s) (s\<lparr>currentStage := ''CheckingDocker''\<rparr>)
      in case result of
           Inr _ \<Rightarrow> s1
         | Inl error \<Rightarrow> s1\<lparr>errorMessage := ''Failed to start installation''\<rparr>)"

text \<open>
  \<open>handlePasswordSubmit\<close>; the argument is the outcome of
  \<open>invoke('respond_to_sudo_password_request', ...)\<close>, used only when the handler reaches
  the call. The result is the new state and the backend invocations made.
\<close>

definition handlePasswordSubmit ::
  "js_error + unit \<Rightarrow> UbuntuSetupModal \<Rightarrow> UbuntuSetupModal \<times> invocation list" where
  "handlePasswordSubmit result s =
     (if trim (password s) \<noteq> []
      then
        if props_currentSudoPasswordRequestId s = []
        then (s\<lparr>errorMessage := ''No active password request. Please retry.''\<rparr>, [])
        else
          (let call = Invoke ''respond_to_sudo_password_request''
                        (props_currentSudoPasswordRequestId s) (password s)
           in case result of
                Inr _ \<Rightarrow>
                  (flush_watch (currentStage s)
                     (s\<lparr>currentStage := ''CheckingDocker'', errorMessage := []\<rparr>),
                   [call])
              | Inl error \<Rightarrow>
                  (s\<lparr>errorMessage := ''Failed to submit password. Please try again.''\<rparr>,
                   [call]))
      else (s\<lparr>errorMessage := ''Please enter a password''\<rparr>, []))"

definition handleClose :: "UbuntuSetupModal \<Rightarrow> UbuntuSetupModal" where
  "handleClose s = s\<lparr>emitted := emitted s @ [False]\<rparr>"

text \<open>The stage shown after each of a sequence of \<open>installation-stage\<close> events.\<close>

fun stage_trace :: "UbuntuSetupModal \<Rightarrow> InstallationStage list \<Rightarrow> InstallationStage list" where
  "stage_trace s [] = []"
| "stage_trace s (p # ps) =
     (let s' = on_installation_stage p s in currentStage s' # stage_trace s' ps)"

text \<open>What an observer of the modal sees: everything but the password field.\<close>

definition observable ::
  "UbuntuSetupModal \<Rightarrow>
     InstallationStage \<times> int \<times> string \<times> string list \<times> string list \<times> string \<times> bool list" where
  "observable s =
     (currentStage s, setupProgress s, errorMessage s, mysqlContainerLogs s,
      dockerInstallLogs s, currentRequestId s, emitted s)"

text \<open>The stages that report a failure.\<close>

definition is_failed_stage :: "InstallationStage \<Rightarrow> bool" where
  "is_failed_stage stage = (stage = ''DockerInstallFailed'' \<or> stage = ''MySQLSetupFailed'')"

section \<open>The earlier Ubuntu setup modal (src/unnamed/part_001)\<close>

text \<open>
  This version has no password handling and no Docker log; its progress is not rounded.
  Its fields carry the prefix \<open>old_\<close>.
\<close>

record OldUbuntuSetupModal =
  old_currentStage :: InstallationStage
  old_setupProgress :: rat
  old_errorMessage :: string
  old_mysqlContainerLogs :: "string list"
  old_emitted :: "bool list"

definition old_on_installation_stage ::
  "InstallationStage \<Rightarrow> OldUbuntuSetupModal \<Rightarrow> OldUbuntuSetupModal" where
  "old_on_installation_stage stage s =
     (let s1 = s\<lparr>old_currentStage := stage, old_setupProgress := old_calculateProgress stage\<rparr>;
          s2 = (if stage = ''DockerInstallFailed'' \<or> stage = ''MySQLSetupFailed''
                then s1\<lparr>old_errorMessage := ''Setup failed at stage: '' @ stage\<rparr>
                else s1)
      in if stage = ''SetupComplete''
         then s2\<lparr>old_emitted := old_emitted s2 @ [False]\<rparr>
         else s2)"

definition old_on_mysql_container_log ::
  "string \<Rightarrow> OldUbuntuSetupModal \<Rightarrow> OldUbuntuSetupModal" where
  "old_on_mysql_container_log logMessage s =
     s\<lparr>old_mysqlContainerLogs := old_mysqlContainerLogs s @ [logMessage]\<rparr>"

fun old_stage_trace ::
  "OldUbuntuSetupModal \<Rightarrow> InstallationStage list \<Rightarrow> InstallationStage list" where
  "old_stage_trace s [] = []"
| "old_stage_trace s (p # ps) =
     (let s' = old_on_installation_stage p s in old_currentStage s' # old_stage_trace s' ps)"

section \<open>The Windows setup modal (src/unnamed/part_000)\<close>

text \<open>Its fields carry the prefix \<open>win_\<close> where the Ubuntu modal has the same name.\<close>

record SystemRequirements =
  isWindows :: bool
  isCompatibleVersion :: bool
  checkComplete :: bool

record WindowsSetupModal =
  props_open :: bool
  win_currentStage :: InstallationStage
  win_setupProgress :: int
  win_errorMessage :: string
  dockerLogs :: "string list"
  systemRequirements :: SystemRequirements

definition WindowsSetupModal_setup :: "bool \<Rightarrow> WindowsSetupModal" where
  "WindowsSetupModal_setup opened =
     \<lparr>props_open = opened, win_currentStage = ''NotStarted'', win_setupProgress = 0,
      win_errorMessage = [], dockerLogs = [],
      systemRequirements =
        \<lparr>isWindows = False, isCompatibleVersion = False, checkComplete = False\<rparr>\<rparr>"

text \<open>The outcomes of the four backend commands the Windows modal invokes.\<close>

record win_backend =
  get_os_type :: "js_error + string"
  get_os_details :: "js_error + string"
  is_windows :: "js_error + bool"
  start_system_setup :: "js_error + unit"

text \<open>
  \<open>checkSystemRequirements\<close>. Every \<open>await\<close> may throw into the \<open>catch\<close> branch, which
  keeps the assignments made so far. \<open>check_tail\<close> is the code after the version check.
\<close>

definition check_failed :: "js_error \<Rightarrow> WindowsSetupModal \<Rightarrow> bool \<times> WindowsSetupModal" where
  "check_failed error s =
     (False, s\<lparr>win_errorMessage := ''System check failed: '' @ error_text error\<rparr>)"

definition check_tail :: "WindowsSetupModal \<Rightarrow> bool \<times> WindowsSetupModal" where
  "check_tail s =
     (let s1 = s\<lparr>systemRequirements := (systemRequirements s)\<lparr>checkComplete := True\<rparr>,
                 win_currentStage := ''SystemCheckComplete'',
                 win_setupProgress := win_calculateProgress ''SystemCheckComplete''\<rparr>
      in if \<not> isWindows (systemRequirements s1) \<or> \<not> isCompatibleVersion (systemRequirements s1)
         then (False,
               s1\<lparr>win_errorMessage := ''Your system does not meet the minimum requirements.''\<rparr>)
         else (True, s1))"

definition checkSystemRequirements ::
  "win_backend \<Rightarrow> WindowsSetupModal \<Rightarrow> bool \<times> WindowsSetupModal" where
  "checkSystemRequirements env s =
     (let s1 = s\<lparr>win_currentStage := ''SystemCheckInProgress'',
                 win_setupProgress := win_calculateProgress ''SystemCheckInProgress''\<rparr>
      in case get_os_type env of
           Inl error \<Rightarrow> check_failed error s1
         | Inr osType \<Rightarrow>
             (let s2 = s1\<lparr>systemRequirements :=
                          (systemRequirements s1)\<lparr>isWindows := (osType = ''Windows'')\<rparr>\<rparr>
              in case get_os_details env of
                   Inl error \<Rightarrow> check_failed error s2
                 | Inr osDetails \<Rightarrow>
                     if isWindows (systemRequirements s2)
                     then (case is_windows env of
                             Inl error \<Rightarrow> check_failed error s2
                           | Inr isCompatible \<Rightarrow>
                               check_tail
                                 (s2\<lparr>systemRequirements :=
                                      (systemRequirements s2)
                                        \<lparr>isCompatibleVersion := isCompatible\<rparr>\<rparr>))
                     else check_tail s2))"

text \<open>
  \<open>startSetup\<close>. \<open>checkSystemRequirements\<close> catches its own errors and returns false,
  so only a rejected \<open>invoke('start_system_setup')\<close> reaches the \<open>catch\<close> branch here.
\<close>

definition startSetup :: "win_backend \<Rightarrow> WindowsSetupModal \<Rightarrow> WindowsSetupModal" where
  "startSetup env s =
     (case checkSystemRequirements env s of
        (isSystemCompatible, s1) \<Rightarrow>
          if \<not> isSystemCompatible then s1
          else
            (let s2 = s1\<lparr>win_currentStage := ''CheckingDocker'',
                        win_setupProgress := win_calculateProgress ''CheckingDocker''\<rparr>
             in case start_system_setup env of
                  Inr _ \<Rightarrow> s2
                | Inl error \<Rightarrow>
                    s2\<lparr>win_errorMessage := ''Setup failed: '' @ error_text error,
                       win_currentStage := ''DockerInstallFailed''\<rparr>))"

text \<open>The two listeners registered by \<open>onMounted\<close>.\<close>

definition win_on_installation_stage ::
  "InstallationStage \<Rightarrow> WindowsSetupModal \<Rightarrow> WindowsSetupModal" where
  "win_on_installation_stage stage s =
     s\<lparr>win_currentStage := stage, win_setupProgress := win_calculateProgress stage\<rparr>"

definition win_on_docker_install_log :: "string \<Rightarrow> WindowsSetupModal \<Rightarrow> WindowsSetupModal" where
  "win_on_docker_install_log logMessage s = s\<lparr>dockerLogs := dockerLogs s @ [logMessage]\<rparr>"

text \<open>
  \<open>watchEffect\<close>: rerun after a change of \<open>props.open\<close> or of the stage; it starts the
  system check again when the modal is open at \<open>NotStarted\<close>.
\<close>

definition win_watchEffect :: "win_backend \<Rightarrow> WindowsSetupModal \<Rightarrow> WindowsSetupModal" where
  "win_watchEffect env s =
     (if props_open s \<and> win_currentStage s = ''NotStarted''
      then snd (checkSystemRequirements env s)
      else s)"

section \<open>The app shell (App.vue, src/unnamed/part_002)\<close>

record SetupState =
  isSetupRequired :: bool
  currentSudoPasswordRequestId :: string
  osType :: "string option"

text \<open>
  The shell's state: the reactive \<open>setupState\<close>, the number of \<open>setTimeout\<close> callbacks
  scheduled and not yet run, and which listeners \<open>initializeSystem\<close> has registered.
\<close>

record App =
  setupState :: SetupState
  pendingTimeouts :: nat
  listening_installation_stage :: bool
  listening_sudo_password_request :: bool

definition App_setup :: App where
  "App_setup =
     \<lparr>setupState = \<lparr>isSetupRequired = False, currentSudoPasswordRequestId = [], osType = None\<rparr>,
      pendingTimeouts = 0,
      listening_installation_stage = False,
      listening_sudo_password_request = False\<rparr>"

text \<open>The outcomes of the calls \<open>initializeSystem\<close> awaits.\<close>

record app_backend =
  app_get_os_type :: "js_error + string"
  listen_installation_stage :: "js_error + unit"
  listen_sudo_password_request :: "js_error + unit"
  is_docker_installed :: "js_error + bool"

definition set_isSetupRequired :: "bool \<Rightarrow> App \<Rightarrow> App" where
  "set_isSetupRequired b a = a\<lparr>setupState := (setupState a)\<lparr>isSetupRequired := b\<rparr>\<rparr>"

text \<open>\<open>initializeSystem\<close>: any rejected promise ends it in the \<open>catch\<close> branch, which only logs.\<close>

definition initializeSystem :: "app_backend \<Rightarrow> App \<Rightarrow> App" where
  "initializeSystem env a =
     (case app_get_os_type env of
        Inl error \<Rightarrow> a
      | Inr os \<Rightarrow>
          (let a1 = a\<lparr>setupState := (setupState a)\<lparr>osType := Some os\<rparr>\<rparr>
           in case listen_installation_stage env of
                Inl error \<Rightarrow> a1
              | Inr _ \<Rightarrow>
                  (let a2 = a1\<lparr>listening_installation_stage := True\<rparr>
                   in if os = ''Linux''
                      then (case listen_sudo_password_request env of
                              Inl error \<Rightarrow> a2
                            | Inr _ \<Rightarrow>
                                set_isSetupRequired True
                                  (a2\<lparr>listening_sudo_password_request := True\<rparr>))
                      else if os = ''Windows''
                      then (case is_docker_installed env of
                              Inl error \<Rightarrow> a2
                            | Inr isDockerInstalled \<Rightarrow>
                                if \<not> isDockerInstalled then set_isSetupRequired True a2 else a2)
                      else a2)))"

text \<open>
  Three runs of \<open>initializeSystem\<close> in which every promise resolves: on Linux, on
  Windows with Docker installed, and on Windows without Docker.
\<close>

definition backend_Linux :: app_backend where
  "backend_Linux =
     \<lparr>app_get_os_type = Inr ''Linux'', listen_installation_stage = Inr (),
      listen_sudo_password_request = Inr (), is_docker_installed = Inr False\<rparr>"

definition backend_Windows_with_Docker :: app_backend where
  "backend_Windows_with_Docker =
     \<lparr>app_get_os_type = Inr ''Windows'', listen_installation_stage = Inr (),
      listen_sudo_password_request = Inr (), is_docker_installed = Inr True\<rparr>"

definition backend_Windows_without_Docker :: app_backend where
  "backend_Windows_without_Docker =
     \<lparr>app_get_os_type = Inr ''Windows'', listen_installation_stage = Inr (),
      listen_sudo_password_request = Inr (), is_docker_installed = Inr False\<rparr>"

text \<open>
  \<open>handleInstallationStage\<close> schedules the timer; \<open>timeout_callback\<close> is the function
  given to \<open>setTimeout\<close>. The handler of src/App.vue is the same function on the ref
  \<open>isUbuntuSetupRequired\<close>.
\<close>

definition handleInstallationStage :: "string \<Rightarrow> App \<Rightarrow> App" where
  "handleInstallationStage stage a =
     (if stage = ''SetupComplete'' then a\<lparr>pendingTimeouts := Suc (pendingTimeouts a)\<rparr> else a)"

definition timeout_callback :: "App \<Rightarrow> App" where
  "timeout_callback a = set_isSetupRequired False a"

definition handleSudoPasswordRequest :: "string option \<Rightarrow> App \<Rightarrow> App" where
  "handleSudoPasswordRequest request_id a =
     (case request_id of
        None \<Rightarrow> a
      | Some rid \<Rightarrow>
          if rid = [] then a
          else a\<lparr>setupState :=
                   (setupState a)\<lparr>currentSudoPasswordRequestId := rid, isSetupRequired := True\<rparr>\<rparr>)"

definition handleModalOpenChange :: "bool \<Rightarrow> App \<Rightarrow> App" where
  "handleModalOpenChange opened a = set_isSetupRequired opened a"

text \<open>
  What can happen to the shell after \<open>initializeSystem\<close>: a backend event, a timer
  running, or a modal asking to change \<open>isSetupRequired\<close> (\<open>onOpenChange\<close> of the
  Windows modal, the \<open>v-model\<close> update of the Ubuntu modal).
\<close>

datatype app_event =
  StageEvent string
| SudoRequestEvent "string option"
| TimeoutFired
| ModalUpdate bool

fun app_step :: "App \<Rightarrow> app_event \<Rightarrow> App" where
  "app_step a (StageEvent stage) =
     (if listening_installation_stage a then handleInstallationStage stage a else a)"
| "app_step a (SudoRequestEvent request_id) =
     (if listening_sudo_password_request a then handleSudoPasswordRequest request_id a else a)"
| "app_step a TimeoutFired =
     (if pendingTimeouts a = 0 then a
      else timeout_callback (a\<lparr>pendingTimeouts := pendingTimeouts a - 1\<rparr>))"
| "app_step a (ModalUpdate opened) = handleModalOpenChange opened a"

definition app_run :: "App \<Rightarrow> app_event list \<Rightarrow> App" where
  "app_run a evs = foldl app_step a evs"

text \<open>\<open><NotesTable v-if="!setupState.isSetupRequired" />\<close>\<close>

definition notes_visible :: "App \<Rightarrow> bool" where
  "notes_visible a = (\<not> isSetupRequired (setupState a))"

fun is_modal_update :: "app_event \<Rightarrow> bool" where
  "is_modal_update (ModalUpdate opened) = True"
| "is_modal_update ev = False"

text \<open>
  The invariant of the shell while no modal changes the flag: the notes are hidden and
  no timer is pending, unless a \<open>SetupComplete\<close> event has been seen.
\<close>

definition shell_inv :: "App \<Rightarrow> bool \<Rightarrow> bool" where
  "shell_inv a seen = ((notes_visible a \<or> 0 < pendingTimeouts a) \<longrightarrow> seen)"

section \<open>The orchestrator's session, from the specification\<close>

datatype SpecStage =
  NotStarted | AwaitingStart | AwaitingPrivilegedCredential | ProbingRuntime
| RuntimeAbsent | RuntimeInstalling | RuntimeInstallFailed | RuntimeInstalled
| ContainerProvisioning | ContainerStarted | ContainerSetupFailed | SetupComplete

record PrivilegeRequest =
  request_id :: string
  created_at :: nat
  resolved :: bool

record SetupSession =
  current_stage :: SpecStage
  runtime_install_log :: "string list"
  container_log :: "string list"
  last_error :: "string option"
  request :: "PrivilegeRequest option"

datatype ChannelError = AlreadyPending | UnknownOrStaleRequest | AlreadyResolved

datatype OrchestratorError = SetupAlreadyInProgress

text \<open>
  Modelled from the spec: the backend command \<open>respond_to_sudo_password_request\<close> (the
  spec's \<open>submit_credential\<close>) is not among the sources. It fails with
  \<open>UnknownOrStaleRequest\<close> when the id does not match the current outstanding request,
  with \<open>AlreadyResolved\<close> when the request of that id was resolved before, and otherwise
  marks the request resolved and resumes \<open>RuntimeInstalling\<close>. The result is the error,
  if any, and the session afterwards.
\<close>

definition submit_credential ::
  "string \<Rightarrow> jsstring \<Rightarrow> SetupSession \<Rightarrow> ChannelError option \<times> SetupSession" where
  "submit_credential rid secret sess =
     (case request sess of
        None \<Rightarrow> (Some UnknownOrStaleRequest, sess)
      | Some r \<Rightarrow>
          if request_id r \<noteq> rid then (Some UnknownOrStaleRequest, sess)
          else if resolved r then (Some AlreadyResolved, sess)
          else (None, sess\<lparr>request := Some (r\<lparr>resolved := True\<rparr>),
                           current_stage := RuntimeInstalling\<rparr>))"

text \<open>
  Modelled from the spec: the backend commands \<open>start_ubuntu_setup\<close> and
  \<open>start_system_setup\<close> (the spec's \<open>start_setup\<close>) are not among the sources. A session
  is in flight once it has left \<open>NotStarted\<close> and \<open>AwaitingStart\<close> and until it reaches a
  terminal stage. A start request on a fresh session moves it to \<open>AwaitingStart\<close> or
  \<open>ProbingRuntime\<close>, depending on the platform, and from \<open>AwaitingStart\<close> to
  \<open>ProbingRuntime\<close>; while a session is in flight it fails with
  \<open>SetupAlreadyInProgress\<close> and changes nothing. What a start request does at a terminal stage the spec leaves to
  \<open>retry\<close>; here it is the parameter \<open>at_terminal\<close>.
\<close>

definition in_flight :: "SetupSession \<Rightarrow> bool" where
  "in_flight sess =
     (current_stage sess \<notin>
        {NotStarted, AwaitingStart, RuntimeInstallFailed, ContainerSetupFailed, SetupComplete})"

definition start_setup ::
  "bool \<Rightarrow> (SetupSession \<Rightarrow> OrchestratorError option \<times> SetupSession) \<Rightarrow>
     SetupSession \<Rightarrow> OrchestratorError option \<times> SetupSession" where
  "start_setup needs_confirmation at_terminal sess =
     (if in_flight sess then (Some SetupAlreadyInProgress, sess)
      else if current_stage sess = NotStarted
      then (None, sess\<lparr>current_stage := (if needs_confirmation then AwaitingStart else ProbingRuntime)\<rparr>)
      else if current_stage sess = AwaitingStart
      then (None, sess\<lparr>current_stage := ProbingRuntime\<rparr>)
      else at_terminal sess)"

section \<open>The progress formulas\<close>

lemma indexOf_from_absent: "x \<notin> set xs \<Longrightarrow> indexOf_from xs x i = - 1"
  by (induction xs arbitrary: i) auto

lemma indexOf_absent: "x \<notin> set xs \<Longrightarrow> indexOf xs x = - 1"
  by (simp add: indexOf_def indexOf_from_absent)

lemma win_calculateProgress_absent:
  "st \<notin> set win_stages \<Longrightarrow> win_calculateProgress st = - 11"
  by (simp add: win_calculateProgress_def indexOf_absent Let_def win_stages_def
      Math_round_def floor_eq_iff)

lemma old_calculateProgress_absent:
  "st \<notin> set old_stages \<Longrightarrow> old_calculateProgress st = 0"
  by (simp add: old_calculateProgress_def indexOf_absent Let_def)

lemma win_CheckingDocker: "win_calculateProgress ''CheckingDocker'' = 33"
  by (simp add: win_calculateProgress_def indexOf_def win_stages_def
      Math_round_def floor_eq_iff)

lemma ubuntu_CheckingDocker: "calculateProgress ''CheckingDocker'' = 22"
  by (simp add: calculateProgress_def indexOf_def stages_def Math_round_def floor_eq_iff)

lemma old_CheckingDocker: "old_calculateProgress ''CheckingDocker'' = 25 / 2"
  by (simp add: old_calculateProgress_def indexOf_def old_stages_def Math_min_def)

text \<open>
  C2. The Windows modal and the Ubuntu modal do not compute the same percentage: at
  \<open>CheckingDocker\<close> the Windows modal shows 33, the Ubuntu modal 22 and the earlier
  Ubuntu modal 12.5, so the functions are not extensionally equal.
\<close>

theorem C2_progress_formulas_differ:
  "(\<exists>st. win_calculateProgress st \<noteq> calculateProgress st
         \<and> rat_of_int (win_calculateProgress st) \<noteq> old_calculateProgress st)
   \<and> win_calculateProgress \<noteq> calculateProgress"
proof -
  have a: "win_calculateProgress ''CheckingDocker'' \<noteq> calculateProgress ''CheckingDocker''"
    by (simp add: win_CheckingDocker ubuntu_CheckingDocker)
  have b: "rat_of_int (win_calculateProgress ''CheckingDocker'')
             \<noteq> old_calculateProgress ''CheckingDocker''"
    by (simp add: win_CheckingDocker old_CheckingDocker)
  from a have "win_calculateProgress \<noteq> calculateProgress"
    by metis
  with a b show ?thesis
    by blast
qed

lemma win_listener_progress:
  "win_setupProgress (win_on_installation_stage st w) = win_calculateProgress st"
  by (simp add: win_on_installation_stage_def)

lemma old_listener_progress:
  "old_setupProgress (old_on_installation_stage st t) = old_calculateProgress st"
  by (simp add: old_on_installation_stage_def Let_def)

text \<open>
  C9, as amended. A stage absent from the Windows modal's list gets \<open>-11\<close> from the
  Windows \<open>calculateProgress\<close>, and that is the progress the Windows stage listener
  stores for such a payload; a stage absent from the earlier Ubuntu modal's own list
  gets \<open>0\<close> from that modal's guarded \<open>calculateProgress\<close> and from its listener. Both
  failure stages are absent from both lists.
\<close>

theorem C9_absent_stage_progress:
  "(st \<notin> set win_stages \<longrightarrow>
      win_calculateProgress st = - 11
      \<and> win_setupProgress (win_on_installation_stage st w) = - 11)
   \<and> (st \<notin> set old_stages \<longrightarrow>
        old_calculateProgress st = 0
        \<and> old_setupProgress (old_on_installation_stage st t) = 0)
   \<and> ''DockerInstallFailed'' \<notin> set win_stages \<union> set old_stages
   \<and> ''MySQLSetupFailed'' \<notin> set win_stages \<union> set old_stages"
proof -
  have "''DockerInstallFailed'' \<notin> set win_stages \<union> set old_stages"
    by (simp add: win_stages_def old_stages_def)
  moreover have "''MySQLSetupFailed'' \<notin> set win_stages \<union> set old_stages"
    by (simp add: win_stages_def old_stages_def)
  ultimately show ?thesis
    using win_calculateProgress_absent [of st] old_calculateProgress_absent [of st]
    by (simp add: win_listener_progress old_listener_progress)
qed

theorem C9_absent_stage_progress_witness:
  "''DockerInstallFailed'' \<notin> set win_stages
   \<and> ''DockerInstallFailed'' \<notin> set old_stages
   \<and> win_calculateProgress ''DockerInstallFailed'' = - 11
   \<and> old_calculateProgress ''DockerInstallFailed'' = 0
   \<and> win_setupProgress
       (win_on_installation_stage ''DockerInstallFailed'' (WindowsSetupModal_setup True)) = - 11"
  using C9_absent_stage_progress
    [where st = "''DockerInstallFailed''" and w = "WindowsSetupModal_setup True"]
  by (simp add: win_stages_def old_stages_def)

text \<open>
  The claim as first stated fails at \<open>PreparingMySQLContainer\<close>: the Windows list does
  not have it, and the earlier Ubuntu modal returns 62.5 for it, not 0.
\<close>

theorem C9_counterexample:
  "''PreparingMySQLContainer'' \<notin> set win_stages
   \<and> win_calculateProgress ''PreparingMySQLContainer'' = - 11
   \<and> old_calculateProgress ''PreparingMySQLContainer'' = 125 / 2
   \<and> old_calculateProgress ''PreparingMySQLContainer'' \<noteq> 0"
proof -
  have "''PreparingMySQLContainer'' \<notin> set win_stages"
    by (simp add: win_stages_def)
  moreover have "win_calculateProgress ''PreparingMySQLContainer'' = - 11"
    by (simp add: win_calculateProgress_def indexOf_def win_stages_def
        Math_round_def floor_eq_iff)
  moreover have "old_calculateProgress ''PreparingMySQLContainer'' = 125 / 2"
    by (simp add: old_calculateProgress_def indexOf_def old_stages_def Math_min_def)
  ultimately show ?thesis
    by simp
qed

section \<open>The handlers of the Ubuntu modal\<close>

lemma currentStage_flush_watch: "currentStage (flush_watch old s) = currentStage s"
  by (simp add: flush_watch_def watch_currentStage_def Let_def)

lemma currentStage_on_installation_stage: "currentStage (on_installation_stage p s) = p"
  by (simp add: on_installation_stage_def currentStage_flush_watch Let_def)

lemma old_currentStage_on_installation_stage:
  "old_currentStage (old_on_installation_stage p s) = p"
  by (simp add: old_on_installation_stage_def Let_def)

lemma stage_trace_payloads: "stage_trace s ps = ps"
  by (induction ps arbitrary: s) (simp_all add: Let_def currentStage_on_installation_stage)

lemma old_stage_trace_payloads: "old_stage_trace s ps = ps"
  by (induction ps arbitrary: s)
    (simp_all add: Let_def old_currentStage_on_installation_stage)

lemma trim_blank: "trim [0x20, 0x09, 0x3000] = []"
  by (simp add: trim_def isWhiteSpace_def whitespace_units_def)

lemma trim_empty: "trim [] = []"
  by (simp add: trim_def)

lemma trim_letter: "trim [0x61] = [0x61]"
  by (simp add: trim_def isWhiteSpace_def whitespace_units_def)

lemma trim_letters: "trim [0x62, 0x63] = [0x62, 0x63]"
  by (simp add: trim_def isWhiteSpace_def whitespace_units_def)

lemma handlePasswordSubmit_blank:
  "trim (password s) = [] \<Longrightarrow>
   handlePasswordSubmit result s = (s\<lparr>errorMessage := ''Please enter a password''\<rparr>, [])"
  by (simp add: handlePasswordSubmit_def)

lemma handlePasswordSubmit_logs:
  "mysqlContainerLogs (fst (handlePasswordSubmit result s)) = mysqlContainerLogs s
   \<and> dockerInstallLogs (fst (handlePasswordSubmit result s)) = dockerInstallLogs s"
  by (simp add: handlePasswordSubmit_def flush_watch_def watch_currentStage_def Let_def
      split: sum.splits)

lemma handlePasswordSubmit_calls:
  "snd (handlePasswordSubmit result s) = []
   \<or> snd (handlePasswordSubmit result s) =
       [Invoke ''respond_to_sudo_password_request''
          (props_currentSudoPasswordRequestId s) (password s)]"
  by (simp add: handlePasswordSubmit_def Let_def split: sum.splits)

lemma handlePasswordSubmit_message:
  "errorMessage (fst (handlePasswordSubmit result s)) \<in>
     {[], ''No active password request. Please retry.'',
      ''Failed to submit password. Please try again.'', ''Please enter a password''}"
  by (simp add: handlePasswordSubmit_def flush_watch_def watch_currentStage_def Let_def
      split: sum.splits)

lemma handlePasswordSubmit_same_blankness:
  "(trim p1 = []) = (trim p2 = []) \<Longrightarrow>
   observable (fst (handlePasswordSubmit result (s\<lparr>password := p1\<rparr>))) =
   observable (fst (handlePasswordSubmit result (s\<lparr>password := p2\<rparr>)))"
  by (simp add: handlePasswordSubmit_def observable_def flush_watch_def
      watch_currentStage_def Let_def split: sum.splits)

lemma handlePasswordSubmit_no_request:
  "props_currentSudoPasswordRequestId s = [] \<Longrightarrow>
   snd (handlePasswordSubmit result s) = []
   \<and> currentStage (fst (handlePasswordSubmit result s)) = currentStage s
   \<and> fst (handlePasswordSubmit result s) =
       s\<lparr>errorMessage := errorMessage (fst (handlePasswordSubmit result s))\<rparr>
   \<and> errorMessage (fst (handlePasswordSubmit result s)) \<noteq> []"
  by (simp add: handlePasswordSubmit_def)

lemma handlePasswordSubmit_rejected:
  "fst (handlePasswordSubmit (Inl e) s) =
     s\<lparr>errorMessage := errorMessage (fst (handlePasswordSubmit (Inl e) s))\<rparr>"
  by (simp add: handlePasswordSubmit_def Let_def)

lemma submit_credential_stale:
  "(case request sess of None \<Rightarrow> True | Some r \<Rightarrow> request_id r \<noteq> rid) \<Longrightarrow>
   submit_credential rid secret sess = (Some UnknownOrStaleRequest, sess)"
  by (auto simp add: submit_credential_def split: option.splits)

text \<open>
  C1. The failing case of the claim, evaluated. When \<open>invoke('start_ubuntu_setup')\<close>
  rejects, \<open>startInstallation\<close> leaves the stage at \<open>CheckingDocker\<close>, which is not a
  failure stage, and only sets the error message. The Windows \<open>startSetup\<close>, whose
  system check passed and whose \<open>invoke('start_system_setup')\<close> rejects, ends at
  \<open>DockerInstallFailed\<close>.
\<close>

theorem C1_startInstallation_rejected:
  "currentStage (startInstallation (Inl e) s) = ''CheckingDocker''
   \<and> \<not> is_failed_stage (currentStage (startInstallation (Inl e) s))
   \<and> errorMessage (startInstallation (Inl e) s) = ''Failed to start installation''
   \<and> win_currentStage
        (startSetup
           \<lparr>get_os_type = Inr ''Windows'', get_os_details = Inr ''Windows 11'',
            is_windows = Inr True, start_system_setup = Inl e\<rparr>
           (WindowsSetupModal_setup True)) = ''DockerInstallFailed''
   \<and> is_failed_stage ''DockerInstallFailed''"
proof -
  have "currentStage (startInstallation (Inl e) s) = ''CheckingDocker''"
    by (simp add: startInstallation_def currentStage_flush_watch Let_def)
  moreover have "errorMessage (startInstallation (Inl e) s) = ''Failed to start installation''"
    by (simp add: startInstallation_def Let_def)
  moreover have "win_currentStage
        (startSetup
           \<lparr>get_os_type = Inr ''Windows'', get_os_details = Inr ''Windows 11'',
            is_windows = Inr True, start_system_setup = Inl e\<rparr>
           (WindowsSetupModal_setup True)) = ''DockerInstallFailed''"
    by (simp add: startSetup_def checkSystemRequirements_def check_tail_def
        WindowsSetupModal_setup_def Let_def)
  ultimately show ?thesis
    by (simp add: is_failed_stage_def)
qed

text \<open>
  C4, as amended. After each \<open>installation-stage\<close> event the stage of the modal is the
  payload of that event, in both versions of the Ubuntu modal. So the stage is
  \<open>NotStarted\<close> after an event exactly when the event carries \<open>NotStarted\<close>.
\<close>

theorem C4_stage_follows_payload:
  "stage_trace s ps = ps
   \<and> old_stage_trace t ps = ps
   \<and> (''NotStarted'' \<in> set (stage_trace s ps)) = (''NotStarted'' \<in> set ps)
   \<and> (''NotStarted'' \<in> set (old_stage_trace t ps)) = (''NotStarted'' \<in> set ps)"
  by (simp add: stage_trace_payloads old_stage_trace_payloads)

text \<open>
  The claim as first stated fails: the mounted modal has left \<open>NotStarted\<close>, and an
  event carrying \<open>NotStarted\<close> puts it back there.
\<close>

theorem C4_counterexample:
  "currentStage (onMounted 4 (UbuntuSetupModal_setup True [])) = ''AwaitingInstallationStart''
   \<and> currentStage
        (on_installation_stage ''NotStarted'' (onMounted 4 (UbuntuSetupModal_setup True [])))
       = ''NotStarted''"
  by (simp add: currentStage_on_installation_stage onMounted_def currentStage_flush_watch)

text \<open>
  C5, as amended. \<open>handlePasswordSubmit\<close> changes neither log; its error message is one
  of four literals; it makes at most one backend invocation, the
  \<open>respond_to_sudo_password_request\<close> that carries the request id and the password; and
  for the same outcome of that invocation, two passwords that are both blank or both not
  blank leave the same observable state.
\<close>

theorem C5_password_not_observable:
  "((trim p1 = []) = (trim p2 = []) \<longrightarrow>
      observable (fst (handlePasswordSubmit result (s\<lparr>password := p1\<rparr>))) =
      observable (fst (handlePasswordSubmit result (s\<lparr>password := p2\<rparr>))))
   \<and> mysqlContainerLogs (fst (handlePasswordSubmit result s)) = mysqlContainerLogs s
   \<and> dockerInstallLogs (fst (handlePasswordSubmit result s)) = dockerInstallLogs s
   \<and> errorMessage (fst (handlePasswordSubmit result s)) \<in>
       {[], ''No active password request. Please retry.'',
        ''Failed to submit password. Please try again.'', ''Please enter a password''}
   \<and> (snd (handlePasswordSubmit result s) = []
      \<or> snd (handlePasswordSubmit result s) =
          [Invoke ''respond_to_sudo_password_request''
             (props_currentSudoPasswordRequestId s) (password s)])"
  using handlePasswordSubmit_same_blankness [of p1 p2 result s]
    handlePasswordSubmit_logs [of result s]
    handlePasswordSubmit_message [of result s]
    handlePasswordSubmit_calls [of result s]
  by blast

theorem C5_password_not_observable_witness:
  "(trim [0x61] = []) = (trim [0x62, 0x63] = [])
   \<and> observable
        (fst (handlePasswordSubmit (Inr ())
               ((UbuntuSetupModal_setup True ''req-1'')\<lparr>password := [0x61]\<rparr>))) =
      observable
        (fst (handlePasswordSubmit (Inr ())
               ((UbuntuSetupModal_setup True ''req-1'')\<lparr>password := [0x62, 0x63]\<rparr>)))"
  using C5_password_not_observable
    [of "[0x61]" "[0x62, 0x63]" "Inr ()" "UbuntuSetupModal_setup True ''req-1''"]
  by (simp add: trim_letter trim_letters)

text \<open>
  The claim as first stated fails: whether the password is blank shows in the message.
  With a request outstanding and the backend accepting, the empty password leaves
  \<open>Please enter a password\<close> and the password \<open>a\<close> leaves no message.
\<close>

theorem C5_counterexample:
  "errorMessage
     (fst (handlePasswordSubmit (Inr ())
            ((UbuntuSetupModal_setup True ''req-1'')\<lparr>password := []\<rparr>)))
     = ''Please enter a password''
   \<and> errorMessage
       (fst (handlePasswordSubmit (Inr ())
              ((UbuntuSetupModal_setup True ''req-1'')\<lparr>password := [0x61]\<rparr>)))
     = []
   \<and> observable
       (fst (handlePasswordSubmit (Inr ())
              ((UbuntuSetupModal_setup True ''req-1'')\<lparr>password := []\<rparr>)))
     \<noteq> observable
         (fst (handlePasswordSubmit (Inr ())
                ((UbuntuSetupModal_setup True ''req-1'')\<lparr>password := [0x61]\<rparr>)))"
  by (simp add: handlePasswordSubmit_def observable_def UbuntuSetupModal_setup_def
      trim_letter trim_empty flush_watch_def watch_currentStage_def Let_def)

text \<open>
  C6. With no request id in the props, \<open>handlePasswordSubmit\<close> invokes nothing, keeps
  the stage and changes only the error message, to a message that is not empty. When the
  backend rejects the submission the handler again changes only the error message. In the
  session of the specification, a submission whose id is not the id of the current
  request fails with \<open>UnknownOrStaleRequest\<close> and returns the session as it was.
\<close>

theorem C6_submission_without_request:
  "(props_currentSudoPasswordRequestId s = [] \<longrightarrow>
      snd (handlePasswordSubmit result s) = []
      \<and> currentStage (fst (handlePasswordSubmit result s)) = currentStage s
      \<and> fst (handlePasswordSubmit result s) =
          s\<lparr>errorMessage := errorMessage (fst (handlePasswordSubmit result s))\<rparr>
      \<and> errorMessage (fst (handlePasswordSubmit result s)) \<noteq> [])
   \<and> fst (handlePasswordSubmit (Inl e) s) =
       s\<lparr>errorMessage := errorMessage (fst (handlePasswordSubmit (Inl e) s))\<rparr>
   \<and> ((case request sess of None \<Rightarrow> True | Some r \<Rightarrow> request_id r \<noteq> rid) \<longrightarrow>
        submit_credential rid secret sess = (Some UnknownOrStaleRequest, sess))"
  using handlePasswordSubmit_no_request [of s result]
    handlePasswordSubmit_rejected [of e s]
    submit_credential_stale [where sess = sess and rid = rid and secret = secret]
  by blast

theorem C6_submission_without_request_witness:
  "props_currentSudoPasswordRequestId
     ((UbuntuSetupModal_setup True [])\<lparr>password := [0x61]\<rparr>) = []
   \<and> handlePasswordSubmit (Inr ()) ((UbuntuSetupModal_setup True [])\<lparr>password := [0x61]\<rparr>) =
       (((UbuntuSetupModal_setup True [])\<lparr>password := [0x61]\<rparr>)
          \<lparr>errorMessage := ''No active password request. Please retry.''\<rparr>, [])
   \<and> request_id \<lparr>request_id = ''req-1'', created_at = 0, resolved = False\<rparr> \<noteq> ''req-2''
   \<and> submit_credential ''req-2'' [0x61]
        \<lparr>current_stage = AwaitingPrivilegedCredential, runtime_install_log = [],
         container_log = [], last_error = None,
         request = Some \<lparr>request_id = ''req-1'', created_at = 0, resolved = False\<rparr>\<rparr> =
       (Some UnknownOrStaleRequest,
        \<lparr>current_stage = AwaitingPrivilegedCredential, runtime_install_log = [],
         container_log = [], last_error = None,
         request = Some \<lparr>request_id = ''req-1'', created_at = 0, resolved = False\<rparr>\<rparr>)"
proof -
  have a: "handlePasswordSubmit (Inr ())
             ((UbuntuSetupModal_setup True [])\<lparr>password := [0x61]\<rparr>) =
           (((UbuntuSetupModal_setup True [])\<lparr>password := [0x61]\<rparr>)
              \<lparr>errorMessage := ''No active password request. Please retry.''\<rparr>, [])"
    by (simp add: handlePasswordSubmit_def UbuntuSetupModal_setup_def trim_letter)
  show ?thesis
    using a C6_submission_without_request
      [where s = "(UbuntuSetupModal_setup True [])\<lparr>password := [0x61]\<rparr>"
        and result = "Inr ()" and e = "JsError []"
        and sess = "\<lparr>current_stage = AwaitingPrivilegedCredential, runtime_install_log = [],
          container_log = [], last_error = None,
          request = Some \<lparr>request_id = ''req-1'', created_at = 0, resolved = False\<rparr>\<rparr>"
        and rid = "''req-2''" and secret = "[0x61]"]
    by (simp add: UbuntuSetupModal_setup_def)
qed

text \<open>
  C7. Each log listener appends its payload as the last entry of its own log: the new
  array is the old one followed by the payload, one entry longer, with the old array as
  its prefix, and the other log of the modal is untouched. This holds for the two
  listeners of the Ubuntu modal, the listener of the earlier Ubuntu modal and the
  listener of the Windows modal.
\<close>

theorem C7_logs_append_only:
  "mysqlContainerLogs (on_mysql_container_log m s) = mysqlContainerLogs s @ [m]
   \<and> dockerInstallLogs (on_mysql_container_log m s) = dockerInstallLogs s
   \<and> dockerInstallLogs (on_docker_install_log m s) = dockerInstallLogs s @ [m]
   \<and> mysqlContainerLogs (on_docker_install_log m s) = mysqlContainerLogs s
   \<and> old_mysqlContainerLogs (old_on_mysql_container_log m t) = old_mysqlContainerLogs t @ [m]
   \<and> dockerLogs (win_on_docker_install_log m w) = dockerLogs w @ [m]
   \<and> prefix (mysqlContainerLogs s) (mysqlContainerLogs (on_mysql_container_log m s))
   \<and> prefix (dockerInstallLogs s) (dockerInstallLogs (on_docker_install_log m s))
   \<and> prefix (old_mysqlContainerLogs t) (old_mysqlContainerLogs (old_on_mysql_container_log m t))
   \<and> prefix (dockerLogs w) (dockerLogs (win_on_docker_install_log m w))
   \<and> length (mysqlContainerLogs (on_mysql_container_log m s)) =
       Suc (length (mysqlContainerLogs s))
   \<and> length (dockerInstallLogs (on_docker_install_log m s)) =
       Suc (length (dockerInstallLogs s))
   \<and> length (old_mysqlContainerLogs (old_on_mysql_container_log m t)) =
       Suc (length (old_mysqlContainerLogs t))
   \<and> length (dockerLogs (win_on_docker_install_log m w)) = Suc (length (dockerLogs w))
   \<and> take (length (mysqlContainerLogs s)) (mysqlContainerLogs (on_mysql_container_log m s)) =
       mysqlContainerLogs s
   \<and> take (length (dockerInstallLogs s)) (dockerInstallLogs (on_docker_install_log m s)) =
       dockerInstallLogs s"
  by (simp add: on_mysql_container_log_def on_docker_install_log_def
      old_on_mysql_container_log_def win_on_docker_install_log_def)

text \<open>
  C10. When the trimmed password is empty, \<open>handlePasswordSubmit\<close> makes no backend
  invocation and returns the state with \<open>errorMessage\<close> set to
  \<open>Please enter a password\<close> and nothing else changed, the stage included.
\<close>

theorem C10_blank_password_rejected:
  "trim (password s) = [] \<Longrightarrow>
   handlePasswordSubmit result s = (s\<lparr>errorMessage := ''Please enter a password''\<rparr>, [])
   \<and> snd (handlePasswordSubmit result s) = []
   \<and> currentStage (fst (handlePasswordSubmit result s)) = currentStage s
   \<and> errorMessage (fst (handlePasswordSubmit result s)) = ''Please enter a password''"
  by (simp add: handlePasswordSubmit_blank)

theorem C10_blank_password_rejected_witness:
  "trim (password ((UbuntuSetupModal_setup True ''req-1'')
                     \<lparr>password := [0x20, 0x09, 0x3000]\<rparr>)) = []
   \<and> handlePasswordSubmit (Inr ())
        ((UbuntuSetupModal_setup True ''req-1'')\<lparr>password := [0x20, 0x09, 0x3000]\<rparr>) =
       (((UbuntuSetupModal_setup True ''req-1'')\<lparr>password := [0x20, 0x09, 0x3000]\<rparr>)
          \<lparr>errorMessage := ''Please enter a password''\<rparr>, [])"
  using C10_blank_password_rejected
    [of "(UbuntuSetupModal_setup True ''req-1'')\<lparr>password := [0x20, 0x09, 0x3000]\<rparr>"
      "Inr ()"]
  by (simp add: trim_blank)

section \<open>The app shell\<close>

lemma shell_inv_step:
  assumes "shell_inv a seen" and "\<not> is_modal_update e"
  shows "shell_inv (app_step a e) (seen \<or> StageEvent ''SetupComplete'' = e)"
proof (cases e)
  case (StageEvent st)
  with assms show ?thesis
    by (auto simp: shell_inv_def notes_visible_def handleInstallationStage_def)
next
  case (SudoRequestEvent rid)
  with assms show ?thesis
    by (auto simp: shell_inv_def notes_visible_def handleSudoPasswordRequest_def
        split: option.splits)
next
  case TimeoutFired
  with assms show ?thesis
    by (auto simp: shell_inv_def notes_visible_def timeout_callback_def
        set_isSetupRequired_def)
next
  case (ModalUpdate opened)
  with assms show ?thesis
    by simp
qed

lemma shell_inv_run:
  "shell_inv a seen \<Longrightarrow> filter is_modal_update evs = [] \<Longrightarrow>
   shell_inv (app_run a evs) (seen \<or> StageEvent ''SetupComplete'' \<in> set evs)"
proof (induction evs arbitrary: a seen)
  case Nil
  then show ?case
    by (simp add: app_run_def)
next
  case (Cons e evs)
  from Cons.prems have e: "\<not> is_modal_update e" and rest: "filter is_modal_update evs = []"
    by (auto split: if_splits)
  from Cons.prems(1) e
  have "shell_inv (app_step a e) (seen \<or> StageEvent ''SetupComplete'' = e)"
    by (rule shell_inv_step)
  then have "shell_inv (app_run (app_step a e) evs)
      ((seen \<or> StageEvent ''SetupComplete'' = e) \<or> StageEvent ''SetupComplete'' \<in> set evs)"
    using rest by (rule Cons.IH)
  then show ?case
    by (simp add: app_run_def disj_assoc)
qed

lemma pendingTimeouts_initializeSystem:
  "pendingTimeouts (initializeSystem env a) = pendingTimeouts a"
  by (simp add: initializeSystem_def set_isSetupRequired_def Let_def split: sum.splits)

text \<open>
  While the flag is clear and the \<open>sudo-password-request\<close> listener is not registered,
  no backend event and no timer sets the flag.
\<close>

lemma no_setup_step:
  assumes "\<not> isSetupRequired (setupState a)" and "\<not> listening_sudo_password_request a"
    and "\<not> is_modal_update e"
  shows "\<not> isSetupRequired (setupState (app_step a e))
         \<and> \<not> listening_sudo_password_request (app_step a e)"
  using assms
  by (cases e)
    (simp_all add: handleInstallationStage_def timeout_callback_def set_isSetupRequired_def)

lemma no_setup_run:
  "\<not> isSetupRequired (setupState a) \<Longrightarrow> \<not> listening_sudo_password_request a \<Longrightarrow>
   filter is_modal_update evs = [] \<Longrightarrow>
   \<not> isSetupRequired (setupState (app_run a evs))"
proof (induction evs arbitrary: a)
  case Nil
  then show ?case
    by (simp add: app_run_def)
next
  case (Cons e evs)
  from Cons.prems have e: "\<not> is_modal_update e" and rest: "filter is_modal_update evs = []"
    by (auto split: if_splits)
  from Cons.prems(1,2) e
  have "\<not> isSetupRequired (setupState (app_step a e))
        \<and> \<not> listening_sudo_password_request (app_step a e)"
    by (rule no_setup_step)
  with rest have "\<not> isSetupRequired (setupState (app_run (app_step a e) evs))"
    by (simp add: Cons.IH)
  then show ?case
    by (simp add: app_run_def)
qed

lemma initializeSystem_Windows_Docker_present:
  assumes "app_get_os_type wd = Inr ''Windows''" and "listen_installation_stage wd = Inr ()"
    and "is_docker_installed wd = Inr True"
  shows "\<not> isSetupRequired (setupState (initializeSystem wd App_setup))
         \<and> \<not> listening_sudo_password_request (initializeSystem wd App_setup)"
  using assms by (simp add: initializeSystem_def App_setup_def)

lemma initializeSystem_Linux_sets:
  assumes "app_get_os_type lx = Inr ''Linux''" and "listen_installation_stage lx = Inr ()"
    and "listen_sudo_password_request lx = Inr ()"
  shows "isSetupRequired (setupState (initializeSystem lx App_setup))"
  using assms by (simp add: initializeSystem_def App_setup_def set_isSetupRequired_def)

lemma initializeSystem_Windows_Docker_absent:
  assumes "app_get_os_type wn = Inr ''Windows''" and "listen_installation_stage wn = Inr ()"
    and "is_docker_installed wn = Inr False"
  shows "isSetupRequired (setupState (initializeSystem wn App_setup))"
  using assms by (simp add: initializeSystem_def App_setup_def set_isSetupRequired_def)

lemma notes_after_initializeSystem:
  assumes "\<not> notes_visible (initializeSystem env App_setup)"
    and "filter is_modal_update evs = []"
    and "notes_visible (app_run (initializeSystem env App_setup) evs)"
  shows "StageEvent ''SetupComplete'' \<in> set evs"
proof -
  have "pendingTimeouts (initializeSystem env App_setup) = 0"
    by (simp add: pendingTimeouts_initializeSystem App_setup_def)
  with assms(1) have "shell_inv (initializeSystem env App_setup) False"
    by (simp add: shell_inv_def)
  from this assms(2)
  have "shell_inv (app_run (initializeSystem env App_setup) evs)
          (False \<or> StageEvent ''SetupComplete'' \<in> set evs)"
    by (rule shell_inv_run)
  with assms(3) show ?thesis
    by (simp add: shell_inv_def)
qed

lemma handleModalOpenChange_flag:
  "isSetupRequired (setupState (handleModalOpenChange opened a)) = opened"
  by (simp add: handleModalOpenChange_def set_isSetupRequired_def)

lemma initializeSystem_Linux:
  "initializeSystem backend_Linux App_setup =
   \<lparr>setupState =
      \<lparr>isSetupRequired = True, currentSudoPasswordRequestId = [], osType = Some ''Linux''\<rparr>,
    pendingTimeouts = 0, listening_installation_stage = True,
    listening_sudo_password_request = True\<rparr>"
  by (simp add: initializeSystem_def backend_Linux_def App_setup_def set_isSetupRequired_def)

lemma initializeSystem_Windows_with_Docker:
  "initializeSystem backend_Windows_with_Docker App_setup =
   \<lparr>setupState =
      \<lparr>isSetupRequired = False, currentSudoPasswordRequestId = [],
       osType = Some ''Windows''\<rparr>,
    pendingTimeouts = 0, listening_installation_stage = True,
    listening_sudo_password_request = False\<rparr>"
  by (simp add: initializeSystem_def backend_Windows_with_Docker_def App_setup_def
      set_isSetupRequired_def)

lemma initializeSystem_Windows_without_Docker:
  "initializeSystem backend_Windows_without_Docker App_setup =
   \<lparr>setupState =
      \<lparr>isSetupRequired = True, currentSudoPasswordRequestId = [],
       osType = Some ''Windows''\<rparr>,
    pendingTimeouts = 0, listening_installation_stage = True,
    listening_sudo_password_request = False\<rparr>"
  by (simp add: initializeSystem_def backend_Windows_without_Docker_def App_setup_def
      set_isSetupRequired_def)

text \<open>
  C3, as amended. The notes table is shown when the shell is set up. When
  \<open>initializeSystem\<close> finds Windows with Docker installed it leaves the notes shown, and
  they stay shown under every sequence of backend events and timers. When it finds Linux
  and registers both listeners, or finds Windows without Docker, it hides the notes.
  Whenever \<open>initializeSystem\<close> has hidden the notes, backend events and timers alone (no
  modal reporting an open-change) make them visible only if an \<open>installation-stage\<close>
  event carrying \<open>SetupComplete\<close> is among the events handled. \<open>handleModalOpenChange\<close>
  assigns the flag directly: the notes are visible after it exactly when it reports a
  close.
\<close>

theorem C3_notes_after_SetupComplete:
  "notes_visible App_setup
   \<and> (app_get_os_type wd = Inr ''Windows'' \<and> listen_installation_stage wd = Inr ()
        \<and> is_docker_installed wd = Inr True \<and> filter is_modal_update evs_wd = []
      \<longrightarrow> notes_visible (app_run (initializeSystem wd App_setup) evs_wd))
   \<and> (app_get_os_type lx = Inr ''Linux'' \<and> listen_installation_stage lx = Inr ()
        \<and> listen_sudo_password_request lx = Inr ()
      \<longrightarrow> \<not> notes_visible (initializeSystem lx App_setup))
   \<and> (app_get_os_type wn = Inr ''Windows'' \<and> listen_installation_stage wn = Inr ()
        \<and> is_docker_installed wn = Inr False
      \<longrightarrow> \<not> notes_visible (initializeSystem wn App_setup))
   \<and> (\<not> notes_visible (initializeSystem env App_setup)
        \<and> filter is_modal_update evs = []
        \<and> notes_visible (app_run (initializeSystem env App_setup) evs)
      \<longrightarrow> StageEvent ''SetupComplete'' \<in> set evs)
   \<and> notes_visible (handleModalOpenChange opened a) = (\<not> opened)"
proof -
  have start: "notes_visible App_setup"
    by (simp add: notes_visible_def App_setup_def)
  have present: "notes_visible (app_run (initializeSystem wd App_setup) evs_wd)"
    if "app_get_os_type wd = Inr ''Windows''" "listen_installation_stage wd = Inr ()"
      "is_docker_installed wd = Inr True" "filter is_modal_update evs_wd = []"
    using that initializeSystem_Windows_Docker_present [of wd]
      no_setup_run [of "initializeSystem wd App_setup" evs_wd]
    by (simp add: notes_visible_def)
  have modal: "notes_visible (handleModalOpenChange opened a) = (\<not> opened)"
    by (simp add: notes_visible_def handleModalOpenChange_flag)
  show ?thesis
    using start present modal
      initializeSystem_Linux_sets [of lx]
      initializeSystem_Windows_Docker_absent [of wn]
      notes_after_initializeSystem [of env evs]
    by (simp add: notes_visible_def)
qed

theorem C3_notes_after_SetupComplete_witness:
  "app_get_os_type backend_Windows_with_Docker = Inr ''Windows''
   \<and> is_docker_installed backend_Windows_with_Docker = Inr True
   \<and> filter is_modal_update [StageEvent ''CheckingDocker'', TimeoutFired] = []
   \<and> notes_visible
       (app_run (initializeSystem backend_Windows_with_Docker App_setup)
          [StageEvent ''CheckingDocker'', TimeoutFired])
   \<and> app_get_os_type backend_Linux = Inr ''Linux''
   \<and> \<not> notes_visible (initializeSystem backend_Linux App_setup)
   \<and> app_get_os_type backend_Windows_without_Docker = Inr ''Windows''
   \<and> is_docker_installed backend_Windows_without_Docker = Inr False
   \<and> \<not> notes_visible (initializeSystem backend_Windows_without_Docker App_setup)
   \<and> filter is_modal_update
       [StageEvent ''CheckingDocker'', StageEvent ''SetupComplete'', TimeoutFired] = []
   \<and> notes_visible
       (app_run (initializeSystem backend_Linux App_setup)
          [StageEvent ''CheckingDocker'', StageEvent ''SetupComplete'', TimeoutFired])
   \<and> StageEvent ''SetupComplete'' \<in>
       set [StageEvent ''CheckingDocker'', StageEvent ''SetupComplete'', TimeoutFired]"
proof -
  have run: "notes_visible
       (app_run (initializeSystem backend_Linux App_setup)
          [StageEvent ''CheckingDocker'', StageEvent ''SetupComplete'', TimeoutFired])"
    by (simp add: initializeSystem_Linux app_run_def notes_visible_def
        handleInstallationStage_def timeout_callback_def set_isSetupRequired_def)
  have envs: "app_get_os_type backend_Windows_with_Docker = Inr ''Windows''
      \<and> listen_installation_stage backend_Windows_with_Docker = Inr ()
      \<and> is_docker_installed backend_Windows_with_Docker = Inr True
      \<and> app_get_os_type backend_Linux = Inr ''Linux''
      \<and> listen_installation_stage backend_Linux = Inr ()
      \<and> listen_sudo_password_request backend_Linux = Inr ()
      \<and> app_get_os_type backend_Windows_without_Docker = Inr ''Windows''
      \<and> listen_installation_stage backend_Windows_without_Docker = Inr ()
      \<and> is_docker_installed backend_Windows_without_Docker = Inr False"
    by (simp add: backend_Linux_def backend_Windows_with_Docker_def
        backend_Windows_without_Docker_def)
  show ?thesis
    using run envs C3_notes_after_SetupComplete
      [where wd = backend_Windows_with_Docker
        and evs_wd = "[StageEvent ''CheckingDocker'', TimeoutFired]"
        and lx = backend_Linux and wn = backend_Windows_without_Docker
        and env = backend_Linux
        and evs = "[StageEvent ''CheckingDocker'', StageEvent ''SetupComplete'', TimeoutFired]"
        and opened = False and a = App_setup]
    by simp
qed

text \<open>
  The claim as first stated fails. The notes table is visible when the shell is set up,
  and on Windows with Docker installed \<open>initializeSystem\<close> leaves it visible: it is shown
  with no event handled at all, and still shown after an event that is not
  \<open>SetupComplete\<close>. On Windows without Docker the notes are hidden, and a close reported
  by the modal through \<open>handleModalOpenChange\<close> shows them with no \<open>SetupComplete\<close> event.
\<close>

theorem C3_counterexample:
  "notes_visible App_setup
   \<and> notes_visible (app_run (initializeSystem backend_Windows_with_Docker App_setup) [])
   \<and> notes_visible
       (app_run (initializeSystem backend_Windows_with_Docker App_setup)
          [StageEvent ''CheckingDocker''])
   \<and> StageEvent ''SetupComplete'' \<notin> set [StageEvent ''CheckingDocker'']
   \<and> \<not> notes_visible (initializeSystem backend_Windows_without_Docker App_setup)
   \<and> notes_visible
       (app_run (initializeSystem backend_Windows_without_Docker App_setup)
          [ModalUpdate False])
   \<and> StageEvent ''SetupComplete'' \<notin> set [ModalUpdate False]"
proof -
  have "notes_visible App_setup"
    by (simp add: notes_visible_def App_setup_def)
  then show ?thesis
    by (simp add: initializeSystem_Windows_with_Docker
        initializeSystem_Windows_without_Docker app_run_def notes_visible_def
        handleInstallationStage_def handleModalOpenChange_def set_isSetupRequired_def)
qed

section \<open>The orchestrator's session\<close>

lemma start_setup_in_flight:
  "in_flight sess \<Longrightarrow>
   start_setup needs_confirmation at_terminal sess = (Some SetupAlreadyInProgress, sess)"
  by (simp add: start_setup_def)

text \<open>
  C8. In the session of the specification, a start request made while a setup is in
  flight fails with \<open>SetupAlreadyInProgress\<close> and returns the session unchanged.
\<close>

theorem C8_second_start_rejected:
  "in_flight sess \<Longrightarrow>
   fst (start_setup needs_confirmation at_terminal sess) = Some SetupAlreadyInProgress
   \<and> snd (start_setup needs_confirmation at_terminal sess) = sess"
  by (simp add: start_setup_in_flight)

theorem C8_second_start_rejected_witness:
  "in_flight
     (snd (start_setup False (\<lambda>x. (None, x))
             \<lparr>current_stage = NotStarted, runtime_install_log = [], container_log = [],
              last_error = None, request = None\<rparr>))
   \<and> start_setup False (\<lambda>x. (None, x))
       (snd (start_setup False (\<lambda>x. (None, x))
               \<lparr>current_stage = NotStarted, runtime_install_log = [], container_log = [],
                last_error = None, request = None\<rparr>)) =
      (Some SetupAlreadyInProgress,
       \<lparr>current_stage = ProbingRuntime, runtime_install_log = [], container_log = [],
        last_error = None, request = None\<rparr>)"
proof -
  have first: "snd (start_setup False (\<lambda>x. (None, x))
             \<lparr>current_stage = NotStarted, runtime_install_log = [], container_log = [],
              last_error = None, request = None\<rparr>) =
       \<lparr>current_stage = ProbingRuntime, runtime_install_log = [], container_log = [],
        last_error = None, request = None\<rparr>"
    by (simp add: start_setup_def in_flight_def)
  have busy: "in_flight
       \<lparr>current_stage = ProbingRuntime, runtime_install_log = [], container_log = [],
        last_error = None, request = None\<rparr>"
    by (simp add: in_flight_def)
  show ?thesis
    using busy C8_second_start_rejected
      [where sess = "\<lparr>current_stage = ProbingRuntime, runtime_install_log = [],
          container_log = [], last_error = None, request = None\<rparr>"
        and needs_confirmation = False and at_terminal = "\<lambda>x. (None, x)"]
    by (simp add: first prod_eq_iff)
qed

end
